theory Spec2Isabelle
  imports Main "HOL-Library.Multiset"
begin

section \<open>Entities\<close>

text \<open>
  \<^verbatim>\<open>Order\<close> and \<^verbatim>\<open>Redemption\<close> are the two entity interfaces of the service. Points are
  JavaScript numbers that the request DTOs restrict to integers; they are modelled as
  unbounded \<open>int\<close> (exact for every magnitude below \<open>2^53\<close>). A \<^verbatim>\<open>Date\<close> is modelled by
  its \<^verbatim>\<open>getTime()\<close> value, the milliseconds since the epoch.
\<close>

datatype OrderStatus = active | cancelled | refunded

record Order =
  orderId :: string
  userId :: string
  points :: int
  status :: OrderStatus

record Redemption =
  redemptionId :: string
  userId :: string
  points :: int
  timestamp :: int

section \<open>Responses and exceptions\<close>

text \<open>The object returned by \<^verbatim>\<open>calculateBalance\<close>.\<close>

record Balance =
  earnedPoints :: int
  redeemedPoints :: int
  balance :: int

text \<open>\<^verbatim>\<open>BalanceResponseDto\<close>: the three numbers and the user id.\<close>

record BalanceResponseDto = Balance +
  userId :: string

text \<open>
  \<^verbatim>\<open>RedemptionResponseDto\<close>: the four fields of the redemption and \<^verbatim>\<open>newBalance\<close>. The
  \<^verbatim>\<open>timestamp\<close> of a response is the ISO-8601 rendering of the instant; the model keeps
  the instant.
\<close>

record RedemptionResponseDto = Redemption +
  newBalance :: int

text \<open>
  The object returned by \<^verbatim>\<open>getRedemptionHistory\<close>; each entry carries the four fields
  of a redemption.
\<close>

record RedemptionHistory =
  userId :: string
  redemptions :: "Redemption list"

text \<open>
  The three exceptions the service throws, with the values their messages are built from:
  \<^verbatim>\<open>'Redemption amount must be positive'\<close>, \<^verbatim>\<open>`User ${userId} not found`\<close> and
  \<^verbatim>\<open>`Insufficient points. Available: ${balance}, Requested: ${points}`\<close>.
\<close>

datatype HttpException =
    BadRequestException
  | NotFoundException string
  | ConflictException int int

section \<open>Repositories and service state\<close>

text \<open>
  The state of a \<^verbatim>\<open>Promise<void>\<close> held in \<^verbatim>\<open>activeLocks\<close>.
\<close>

datatype LockPromise = Pending | Resolved

text \<open>
  The mutable state behind one \<^verbatim>\<open>LoyaltyService\<close>: the map of the order repository, the map
  of the redemption repository and the service's own \<^verbatim>\<open>activeLocks\<close>.
\<close>

record LoyaltyState =
  ordersByUser :: "string \<rightharpoonup> Order list"
  redemptionsByUser :: "string \<rightharpoonup> Redemption list"
  activeLocks :: "string \<rightharpoonup> LockPromise"

text \<open>\<^verbatim>\<open>OrderRepository.findByUserId\<close>: \<^verbatim>\<open>this.ordersByUser.get(userId) || []\<close>.\<close>

definition order_findByUserId :: "LoyaltyState \<Rightarrow> string \<Rightarrow> Order list" where
  "order_findByUserId s uid = (case ordersByUser s uid of None \<Rightarrow> [] | Some os \<Rightarrow> os)"

text \<open>\<^verbatim>\<open>OrderRepository.userExists\<close>: \<^verbatim>\<open>this.ordersByUser.has(userId)\<close>.\<close>

definition userExists :: "LoyaltyState \<Rightarrow> string \<Rightarrow> bool" where
  "userExists s uid = (ordersByUser s uid \<noteq> None)"

text \<open>\<^verbatim>\<open>RedemptionRepository.findByUserId\<close>: \<^verbatim>\<open>this.redemptionsByUser.get(userId) || []\<close>.\<close>

definition redemption_findByUserId :: "LoyaltyState \<Rightarrow> string \<Rightarrow> Redemption list" where
  "redemption_findByUserId s uid =
     (case redemptionsByUser s uid of None \<Rightarrow> [] | Some rs \<Rightarrow> rs)"

text \<open>
  \<^verbatim>\<open>RedemptionRepository.save\<close>: push onto the user's array (a new one when the user has
  none) and store it under the user's id.
\<close>

definition save :: "LoyaltyState \<Rightarrow> Redemption \<Rightarrow> LoyaltyState" where
  "save s redemption =
     (let userRedemptions = redemption_findByUserId s (Redemption.userId redemption)
      in s\<lparr>redemptionsByUser :=
            (redemptionsByUser s)(Redemption.userId redemption \<mapsto> userRedemptions @ [redemption])\<rparr>)"

text \<open>
  The seed data of the two repository constructors; a fresh service has no lock.
\<close>

definition seedOrders :: "string \<rightharpoonup> Order list" where
  "seedOrders =
     [''alice'' \<mapsto>
        [\<lparr>orderId = ''ord-a1'', Order.userId = ''alice'', Order.points = 100, status = active\<rparr>,
         \<lparr>orderId = ''ord-a2'', Order.userId = ''alice'', Order.points = 150, status = active\<rparr>,
         \<lparr>orderId = ''ord-a3'', Order.userId = ''alice'', Order.points = 50, status = active\<rparr>],
      ''bob'' \<mapsto> [],
      ''charlie'' \<mapsto>
        [\<lparr>orderId = ''ord-c1'', Order.userId = ''charlie'', Order.points = 500, status = active\<rparr>],
      ''dave'' \<mapsto>
        [\<lparr>orderId = ''ord-d1'', Order.userId = ''dave'', Order.points = 200, status = active\<rparr>,
         \<lparr>orderId = ''ord-d2'', Order.userId = ''dave'', Order.points = 100, status = cancelled\<rparr>],
      ''eve'' \<mapsto>
        [\<lparr>orderId = ''ord-e1'', Order.userId = ''eve'', Order.points = 50, status = active\<rparr>,
         \<lparr>orderId = ''ord-e2'', Order.userId = ''eve'', Order.points = 50, status = active\<rparr>,
         \<lparr>orderId = ''ord-e3'', Order.userId = ''eve'', Order.points = 50, status = active\<rparr>,
         \<lparr>orderId = ''ord-e4'', Order.userId = ''eve'', Order.points = 50, status = active\<rparr>,
         \<lparr>orderId = ''ord-e5'', Order.userId = ''eve'', Order.points = 50, status = active\<rparr>]]"

definition seedRedemptions :: "string \<rightharpoonup> Redemption list" where
  "seedRedemptions =
     [''alice'' \<mapsto>
        [\<lparr>redemptionId = ''red-a1'', Redemption.userId = ''alice'', Redemption.points = 100,
          timestamp = 1737367200000\<rparr>],
      ''charlie'' \<mapsto>
        [\<lparr>redemptionId = ''red-c1'', Redemption.userId = ''charlie'', Redemption.points = 250,
          timestamp = 1737297000000\<rparr>,
         \<lparr>redemptionId = ''red-c2'', Redemption.userId = ''charlie'', Redemption.points = 250,
          timestamp = 1737364500000\<rparr>],
      ''eve'' \<mapsto>
        [\<lparr>redemptionId = ''red-e1'', Redemption.userId = ''eve'', Redemption.points = 25,
          timestamp = 1737201600000\<rparr>,
         \<lparr>redemptionId = ''red-e2'', Redemption.userId = ''eve'', Redemption.points = 75,
          timestamp = 1737305100000\<rparr>]]"

definition seedState :: LoyaltyState where
  "seedState =
     \<lparr>ordersByUser = seedOrders, redemptionsByUser = seedRedemptions,
      activeLocks = Map.empty\<rparr>"

section \<open>The service\<close>

text \<open>
  \<^verbatim>\<open>calculateBalance\<close>: filter the orders to the active ones and reduce both arrays from 0.
\<close>

definition calculateBalance :: "LoyaltyState \<Rightarrow> string \<Rightarrow> Balance" where
  "calculateBalance s uid =
     (let orders = order_findByUserId s uid;
          redemptions = redemption_findByUserId s uid;
          earned = foldl (\<lambda>sum order. sum + Order.points order) 0
                     (filter (\<lambda>order. status order = active) orders);
          redeemed = foldl (\<lambda>sum redemption. sum + Redemption.points redemption) 0
                       redemptions
      in \<lparr>earnedPoints = earned, redeemedPoints = redeemed, balance = earned - redeemed\<rparr>)"

text \<open>\<^verbatim>\<open>getBalance\<close> reads only.\<close>

definition getBalance :: "LoyaltyState \<Rightarrow> string \<Rightarrow> HttpException + BalanceResponseDto" where
  "getBalance s uid =
     (if \<not> userExists s uid then Inl (NotFoundException uid)
      else let b = calculateBalance s uid
           in Inr \<lparr>earnedPoints = earnedPoints b, redeemedPoints = redeemedPoints b,
                   balance = balance b, BalanceResponseDto.userId = uid\<rparr>)"

text \<open>
  \<^verbatim>\<open>executeRedemption\<close>. The identifier \<open>rid\<close> is what \<^verbatim>\<open>uuidv4()\<close> returned and
  \<open>now\<close> is the instant of \<^verbatim>\<open>new Date()\<close>; both come from the environment.
\<close>

definition executeRedemption ::
  "LoyaltyState \<Rightarrow> string \<Rightarrow> int \<Rightarrow> string \<Rightarrow> int \<Rightarrow>
     (HttpException + RedemptionResponseDto) \<times> LoyaltyState" where
  "executeRedemption s uid pts rid now =
     (if pts \<le> 0 then (Inl BadRequestException, s)
      else if \<not> userExists s uid then (Inl (NotFoundException uid), s)
      else let bal = balance (calculateBalance s uid)
           in if bal < pts then (Inl (ConflictException bal pts), s)
              else let redemption =
                         \<lparr>redemptionId = rid, Redemption.userId = uid, Redemption.points = pts,
                           timestamp = now\<rparr>;
                       s' = save s redemption;
                       newBal = bal - pts
                   in (Inr \<lparr>redemptionId = redemptionId redemption,
                            Redemption.userId = Redemption.userId redemption,
                            Redemption.points = Redemption.points redemption,
                            timestamp = timestamp redemption,
                            newBalance = newBal\<rparr>, s'))"

text \<open>
  \<^verbatim>\<open>redeemPoints\<close>, one call run to its end. A lock found in \<^verbatim>\<open>activeLocks\<close> is awaited:
  on a pending promise the call does not continue until some other call resolves it, and
  in a run of one call after the other there is none, so the result is \<open>None\<close>. Otherwise
  the call registers its own pending promise, runs \<^verbatim>\<open>executeRedemption\<close>, and in the
  \<^verbatim>\<open>finally\<close> block resolves the promise and deletes the user's entry, whether the
  redemption returned or threw.
\<close>

definition redeemPoints ::
  "LoyaltyState \<Rightarrow> string \<Rightarrow> int \<Rightarrow> string \<Rightarrow> int \<Rightarrow>
     ((HttpException + RedemptionResponseDto) \<times> LoyaltyState) option" where
  "redeemPoints s uid pts rid now =
     (case activeLocks s uid of
        Some Pending \<Rightarrow> None
      | _ \<Rightarrow>
          (let s1 = s\<lparr>activeLocks := (activeLocks s)(uid \<mapsto> Pending)\<rparr>;
               (result, s2) = executeRedemption s1 uid pts rid now;
               s3 = s2\<lparr>activeLocks := (activeLocks s2)(uid \<mapsto> Resolved)\<rparr>;
               s4 = s3\<lparr>activeLocks := (activeLocks s3)(uid := None)\<rparr>
           in Some (result, s4)))"

text \<open>
  \<^verbatim>\<open>Array.prototype.sort\<close> with a comparator: a stable sort (ECMAScript 2019), so the
  result is the one of an insertion sort that places an element before the first element
  it does not compare greater than.
\<close>

fun insert_sorted :: "('a \<Rightarrow> 'a \<Rightarrow> int) \<Rightarrow> 'a \<Rightarrow> 'a list \<Rightarrow> 'a list" where
  "insert_sorted cmp x [] = [x]"
| "insert_sorted cmp x (y # ys) =
     (if cmp x y \<le> 0 then x # y # ys else y # insert_sorted cmp x ys)"

definition Array_sort :: "('a \<Rightarrow> 'a \<Rightarrow> int) \<Rightarrow> 'a list \<Rightarrow> 'a list" where
  "Array_sort cmp xs = foldr (insert_sorted cmp) xs []"

text \<open>The comparator of the history: \<^verbatim>\<open>b.timestamp.getTime() - a.timestamp.getTime()\<close>.\<close>

definition newestFirst :: "Redemption \<Rightarrow> Redemption \<Rightarrow> int" where
  "newestFirst a b = timestamp b - timestamp a"

text \<open>
  \<^verbatim>\<open>getRedemptionHistory\<close>. The repository returns its own array when the user has one,
  and \<^verbatim>\<open>sort\<close> sorts in place: the stored array is the sorted one afterwards. A user
  without an entry gets a new empty array, and the repository is left as it was. The
  response is built from a \<^verbatim>\<open>map\<close> over the sorted array, a new array of new objects.
\<close>

definition getRedemptionHistory ::
  "LoyaltyState \<Rightarrow> string \<Rightarrow> (HttpException + RedemptionHistory) \<times> LoyaltyState" where
  "getRedemptionHistory s uid =
     (if \<not> userExists s uid then (Inl (NotFoundException uid), s)
      else let rs = redemption_findByUserId s uid;
               sortedRs = Array_sort newestFirst rs;
               s' = (case redemptionsByUser s uid of
                       None \<Rightarrow> s
                     | Some _ \<Rightarrow> s\<lparr>redemptionsByUser := (redemptionsByUser s)(uid \<mapsto> sortedRs)\<rparr>);
               sortedRedemptions =
                 map (\<lambda>r. \<lparr>redemptionId = redemptionId r,
                            Redemption.userId = Redemption.userId r,
                            Redemption.points = Redemption.points r,
                            timestamp = timestamp r\<rparr>) sortedRs
           in (Inr \<lparr>RedemptionHistory.userId = uid, redemptions = sortedRedemptions\<rparr>, s'))"

text \<open>
  The controller's handler of \<^verbatim>\<open>GET /loyalty/:userId/redemptions\<close>: it binds the route
  parameter \<^verbatim>\<open>userId\<close> and nothing else, so the query string of the request (here the
  list of its parameters, each a name and a text) is not read.
\<close>

definition controller_getRedemptionHistory ::
  "LoyaltyState \<Rightarrow> string \<Rightarrow> (string \<times> string) list \<Rightarrow>
     (HttpException + RedemptionHistory) \<times> LoyaltyState" where
  "controller_getRedemptionHistory s uid query = getRedemptionHistory s uid"

section \<open>Runs of client calls\<close>

text \<open>
  A client call of the service and its reply. \<open>Redeem uid pts rid now\<close> is a call of
  \<^verbatim>\<open>redeemPoints(uid, pts)\<close> during which \<^verbatim>\<open>uuidv4()\<close> yields \<open>rid\<close> and the clock reads
  \<open>now\<close>.
\<close>

datatype Call =
    Redeem string int string int
  | GetBalance string
  | GetRedemptionHistory string

datatype Reply =
    RedeemReply "HttpException + RedemptionResponseDto"
  | BalanceReply "HttpException + BalanceResponseDto"
  | HistoryReply "HttpException + RedemptionHistory"

fun call :: "LoyaltyState \<Rightarrow> Call \<Rightarrow> (Reply \<times> LoyaltyState) option" where
  "call s (Redeem uid pts rid now) =
     (case redeemPoints s uid pts rid now of
        None \<Rightarrow> None
      | Some (r, s') \<Rightarrow> Some (RedeemReply r, s'))"
| "call s (GetBalance uid) = Some (BalanceReply (getBalance s uid), s)"
| "call s (GetRedemptionHistory uid) =
     (case getRedemptionHistory s uid of (r, s') \<Rightarrow> Some (HistoryReply r, s'))"

text \<open>Calls made one after the other, each on the state the previous one left.\<close>

fun run :: "LoyaltyState \<Rightarrow> Call list \<Rightarrow> (Reply list \<times> LoyaltyState) option" where
  "run s [] = Some ([], s)"
| "run s (c # cs) =
     (case call s c of
        None \<Rightarrow> None
      | Some (r, s') \<Rightarrow>
          (case run s' cs of None \<Rightarrow> None | Some (rs, s'') \<Rightarrow> Some (r # rs, s'')))"

text \<open>The calls that are reads of the service.\<close>

fun isRead :: "Call \<Rightarrow> bool" where
  "isRead (Redeem uid pts rid now) = False"
| "isRead (GetBalance uid) = True"
| "isRead (GetRedemptionHistory uid) = True"

text \<open>
  The redemptions that a list of replies reports as recorded for a user, in the order of
  the calls that recorded them.
\<close>

fun appended :: "string \<Rightarrow> Reply list \<Rightarrow> Redemption list" where
  "appended uid [] = []"
| "appended uid (RedeemReply (Inr dto) # rs) =
     (if Redemption.userId dto = uid
      then Redemption.truncate dto # appended uid rs else appended uid rs)"
| "appended uid (_ # rs) = appended uid rs"


section \<open>The specification's balance\<close>

text \<open>
  The balance as the specification words it: earned points are the sum of the points of
  the user's orders whose status is active, redeemed points the sum of the points of all
  the user's redemptions.
\<close>

definition spec_earnedPoints :: "Order list \<Rightarrow> int" where
  "spec_earnedPoints orders =
     (\<Sum>order\<leftarrow>orders. if status order = active then Order.points order else 0)"

definition spec_redeemedPoints :: "Redemption list \<Rightarrow> int" where
  "spec_redeemedPoints rs = (\<Sum>r\<leftarrow>rs. Redemption.points r)"

section \<open>Auxiliary facts\<close>

subsection \<open>Sums of points\<close>

lemma foldl_plus_sum_list:
  "foldl (\<lambda>sum x. sum + f x) (a::int) xs = a + sum_list (map f xs)"
  by (induction xs arbitrary: a) simp_all

lemma sum_list_filter_if:
  "sum_list (map f (filter P xs)) = (\<Sum>x\<leftarrow>xs. if P x then f x else (0::int))"
  by (induction xs) simp_all

lemma earnedPoints_calculateBalance:
  "earnedPoints (calculateBalance s uid) = spec_earnedPoints (order_findByUserId s uid)"
  by (simp add: calculateBalance_def spec_earnedPoints_def Let_def foldl_plus_sum_list
      sum_list_filter_if)

lemma redeemedPoints_calculateBalance:
  "redeemedPoints (calculateBalance s uid) = spec_redeemedPoints (redemption_findByUserId s uid)"
  by (simp add: calculateBalance_def spec_redeemedPoints_def Let_def foldl_plus_sum_list)

lemma balance_calculateBalance:
  "balance (calculateBalance s uid) =
     spec_earnedPoints (order_findByUserId s uid) - spec_redeemedPoints (redemption_findByUserId s uid)"
  by (simp add: calculateBalance_def spec_earnedPoints_def spec_redeemedPoints_def Let_def foldl_plus_sum_list
      sum_list_filter_if)

lemma calculateBalance_spec:
  "calculateBalance s uid =
     \<lparr>earnedPoints = spec_earnedPoints (order_findByUserId s uid),
      redeemedPoints = spec_redeemedPoints (redemption_findByUserId s uid),
      balance = spec_earnedPoints (order_findByUserId s uid)
                - spec_redeemedPoints (redemption_findByUserId s uid)\<rparr>"
  using earnedPoints_calculateBalance [of s uid] redeemedPoints_calculateBalance [of s uid]
    balance_calculateBalance [of s uid]
  by simp

subsection \<open>Saving a redemption\<close>

lemma userExists_activeLocks [simp]:
  "userExists (s\<lparr>activeLocks := l\<rparr>) uid = userExists s uid"
  by (simp add: userExists_def)

lemma calculateBalance_activeLocks [simp]:
  "calculateBalance (s\<lparr>activeLocks := l\<rparr>) uid = calculateBalance s uid"
  by (simp add: calculateBalance_def order_findByUserId_def redemption_findByUserId_def)

lemma save_activeLocks:
  "save (s\<lparr>activeLocks := l\<rparr>) r = (save s r)\<lparr>activeLocks := l\<rparr>"
  by (simp add: save_def redemption_findByUserId_def Let_def)

lemma executeRedemption_activeLocks:
  "executeRedemption (s\<lparr>activeLocks := l\<rparr>) uid pts rid now =
     (fst (executeRedemption s uid pts rid now),
      (snd (executeRedemption s uid pts rid now))\<lparr>activeLocks := l\<rparr>)"
  by (simp add: executeRedemption_def Let_def save_activeLocks)

lemma activeLocks_executeRedemption:
  "activeLocks (snd (executeRedemption s uid pts rid now)) = activeLocks s"
  by (simp add: executeRedemption_def Let_def save_def)

lemma redeemPoints_unlocked:
  assumes "activeLocks s uid = None"
  shows "redeemPoints s uid pts rid now = Some (executeRedemption s uid pts rid now)"
proof -
  obtain r s2 where e: "executeRedemption s uid pts rid now = (r, s2)"
    by (cases "executeRedemption s uid pts rid now")
  have l: "activeLocks s2 = activeLocks s"
    using activeLocks_executeRedemption [of s uid pts rid now] e by simp
  have "(activeLocks s)(uid := None) = activeLocks s"
    using assms by (simp add: fun_upd_idem)
  then have "s2\<lparr>activeLocks := (activeLocks s)(uid := None)\<rparr> = s2"
    using l by simp
  then show ?thesis
    using assms e by (simp add: redeemPoints_def executeRedemption_activeLocks Let_def)
qed

lemma redemption_findByUserId_save:
  "redemption_findByUserId (save s r) uid =
     (if uid = Redemption.userId r then redemption_findByUserId s uid @ [r]
      else redemption_findByUserId s uid)"
  by (simp add: save_def redemption_findByUserId_def Let_def)

lemma order_findByUserId_save [simp]:
  "order_findByUserId (save s r) uid = order_findByUserId s uid"
  by (simp add: save_def order_findByUserId_def Let_def)

lemma userExists_save [simp]: "userExists (save s r) uid = userExists s uid"
  by (simp add: save_def userExists_def Let_def)

lemma activeLocks_save [simp]: "activeLocks (save s r) = activeLocks s"
  by (simp add: save_def Let_def)

lemma spec_redeemedPoints_append [simp]:
  "spec_redeemedPoints (xs @ ys) = spec_redeemedPoints xs + spec_redeemedPoints ys"
  by (simp add: spec_redeemedPoints_def)


lemma earnedPoints_save [simp]:
  "earnedPoints (calculateBalance (save s r) uid) = earnedPoints (calculateBalance s uid)"
  by (simp add: earnedPoints_calculateBalance)


subsection \<open>Sorting the history\<close>

lemma insert_sorted_newestFirst:
  "insert_sorted newestFirst x ys = insort_key (\<lambda>r. - timestamp r) x ys"
  by (induction ys) (simp_all add: newestFirst_def)

lemma Array_sort_newestFirst:
  "Array_sort newestFirst xs = sort_key (\<lambda>r. - timestamp r) xs"
proof -
  have "insert_sorted newestFirst = insort_key (\<lambda>r. - timestamp r)"
    by (intro ext) (rule insert_sorted_newestFirst)
  then show ?thesis by (simp add: Array_sort_def sort_key_def)
qed

lemma mset_Array_sort [simp]: "mset (Array_sort newestFirst xs) = mset xs"
  by (simp add: Array_sort_newestFirst)

lemma Array_sort_Nil [simp]: "Array_sort cmp [] = []"
  by (simp add: Array_sort_def)

lemma spec_redeemedPoints_mset:
  "mset xs = mset ys \<Longrightarrow> spec_redeemedPoints xs = spec_redeemedPoints ys"
proof -
  assume "mset xs = mset ys"
  then have "mset (map Redemption.points xs) = mset (map Redemption.points ys)"
    by simp
  then have "sum_mset (mset (map Redemption.points xs)) = sum_mset (mset (map Redemption.points ys))"
    by (rule arg_cong)
  then show ?thesis
    by (simp only: spec_redeemedPoints_def sum_mset_sum_list)
qed

lemma redemption_copy_id [simp]:
  "map (\<lambda>r. \<lparr>redemptionId = redemptionId r, Redemption.userId = Redemption.userId r,
              Redemption.points = Redemption.points r, timestamp = timestamp r\<rparr>) xs = xs"
  by (induction xs) simp_all

lemma fst_getRedemptionHistory:
  "fst (getRedemptionHistory s uid) =
     (if userExists s uid
      then Inr \<lparr>RedemptionHistory.userId = uid,
                redemptions = Array_sort newestFirst (redemption_findByUserId s uid)\<rparr>
      else Inl (NotFoundException uid))"
  by (simp add: getRedemptionHistory_def Let_def)

lemma redemption_findByUserId_getRedemptionHistory:
  "redemption_findByUserId (snd (getRedemptionHistory s uid)) v =
     (if v = uid \<and> userExists s uid then Array_sort newestFirst (redemption_findByUserId s v)
      else redemption_findByUserId s v)"
  by (simp add: getRedemptionHistory_def Let_def redemption_findByUserId_def split: option.splits)

lemma ordersByUser_getRedemptionHistory [simp]:
  "ordersByUser (snd (getRedemptionHistory s uid)) = ordersByUser s"
  by (simp add: getRedemptionHistory_def Let_def split: option.splits)

lemma activeLocks_getRedemptionHistory [simp]:
  "activeLocks (snd (getRedemptionHistory s uid)) = activeLocks s"
  by (simp add: getRedemptionHistory_def Let_def split: option.splits)

lemma userExists_getRedemptionHistory [simp]:
  "userExists (snd (getRedemptionHistory s uid)) v = userExists s v"
  by (simp add: userExists_def)

lemma order_findByUserId_getRedemptionHistory [simp]:
  "order_findByUserId (snd (getRedemptionHistory s uid)) v = order_findByUserId s v"
  by (simp add: order_findByUserId_def)

lemma calculateBalance_getRedemptionHistory [simp]:
  "calculateBalance (snd (getRedemptionHistory s uid)) v = calculateBalance s v"
proof -
  have "mset (redemption_findByUserId (snd (getRedemptionHistory s uid)) v)
          = mset (redemption_findByUserId s v)"
    by (simp add: redemption_findByUserId_getRedemptionHistory)
  then have "spec_redeemedPoints (redemption_findByUserId (snd (getRedemptionHistory s uid)) v)
          = spec_redeemedPoints (redemption_findByUserId s v)"
    by (rule spec_redeemedPoints_mset)
  then show ?thesis
    using calculateBalance_spec [of s v] calculateBalance_spec [of "snd (getRedemptionHistory s uid)" v]
    by simp
qed

lemma getBalance_getRedemptionHistory [simp]:
  "getBalance (snd (getRedemptionHistory s uid)) v = getBalance s v"
  by (simp add: getBalance_def)

subsection \<open>One redemption\<close>


lemma executeRedemption_Inl:
  assumes "executeRedemption s uid pts rid now = (Inl e, s')"
  shows "s' = s"
  using assms by (auto simp: executeRedemption_def Let_def split: if_splits)

subsection \<open>Runs keep balances non-negative\<close>




subsection \<open>Stability of the history order\<close>

lemma sorted_Array_sort:
  "sorted_wrt (\<lambda>a b. timestamp b \<le> timestamp a) (Array_sort newestFirst xs)"
proof -
  have "sorted (map (\<lambda>r. - timestamp r) (sort_key (\<lambda>r. - timestamp r) xs))"
    by (rule sorted_sort_key)
  then show ?thesis
    by (simp add: Array_sort_newestFirst sorted_map)
qed

lemma Array_sort_stable:
  "filter (\<lambda>r. timestamp r = t) (Array_sort newestFirst xs) = filter (\<lambda>r. timestamp r = t) xs"
proof -
  have "filter (\<lambda>r. - timestamp r = - t) (sort_key (\<lambda>r. - timestamp r) xs)
          = filter (\<lambda>r. - timestamp r = - t) xs"
    by (rule sort_key_stable)
  then show ?thesis by (simp add: Array_sort_newestFirst)
qed


lemma redeemPoints_Some:
  assumes "redeemPoints s uid pts rid now = Some (r, s')"
  shows "r = fst (executeRedemption s uid pts rid now)"
    and "s' = (snd (executeRedemption s uid pts rid now))\<lparr>activeLocks := (activeLocks s)(uid := None)\<rparr>"
  using assms
  by (auto simp: redeemPoints_def executeRedemption_activeLocks Let_def
      split: option.splits LockPromise.splits)

lemma redemption_findByUserId_activeLocks [simp]:
  "redemption_findByUserId (s\<lparr>activeLocks := l\<rparr>) v = redemption_findByUserId s v"
  by (simp add: redemption_findByUserId_def)

lemma redemption_findByUserId_executeRedemption:
  "redemption_findByUserId (snd (executeRedemption s uid pts rid now)) v =
     redemption_findByUserId s v @ appended v [RedeemReply (fst (executeRedemption s uid pts rid now))]"
  by (simp add: executeRedemption_def Let_def redemption_findByUserId_save Redemption.truncate_def)

lemma ordersByUser_executeRedemption [simp]:
  "ordersByUser (snd (executeRedemption s uid pts rid now)) = ordersByUser s"
  by (simp add: executeRedemption_def Let_def save_def)

lemma call_stored:
  assumes "call s c = Some (r, s1)"
  shows "mset (redemption_findByUserId s1 v) = mset (redemption_findByUserId s v @ appended v [r])
     \<and> filter (\<lambda>x. timestamp x = t) (redemption_findByUserId s1 v)
           = filter (\<lambda>x. timestamp x = t) (redemption_findByUserId s v @ appended v [r])
     \<and> ordersByUser s1 = ordersByUser s"
proof (cases c)
  case (Redeem uid pts rid now)
  then obtain res where rp: "redeemPoints s uid pts rid now = Some (res, s1)"
    and r: "r = RedeemReply res"
    using assms by (auto split: option.splits)
  note f = redeemPoints_Some [OF rp]
  show ?thesis
    by (simp only: r f(1)) (simp add: f(2) redemption_findByUserId_executeRedemption)
next
  case (GetBalance uid)
  then show ?thesis using assms by auto
next
  case (GetRedemptionHistory uid)
  then have r: "r = HistoryReply (fst (getRedemptionHistory s uid))"
    and s1: "s1 = snd (getRedemptionHistory s uid)"
    using assms by (auto split: prod.splits)
  show ?thesis
    by (simp add: r s1 redemption_findByUserId_getRedemptionHistory Array_sort_stable)
qed

lemma appended_Cons: "appended v (r # rs) = appended v [r] @ appended v rs"
proof (cases r)
  case (RedeemReply x)
  then show ?thesis by (cases x) simp_all
qed simp_all

lemma run_stored:
  assumes "run s cs = Some (rs, s')"
  shows "mset (redemption_findByUserId s' v) = mset (redemption_findByUserId s v @ appended v rs)
     \<and> filter (\<lambda>x. timestamp x = t) (redemption_findByUserId s' v)
           = filter (\<lambda>x. timestamp x = t) (redemption_findByUserId s v @ appended v rs)
     \<and> ordersByUser s' = ordersByUser s"
  using assms
proof (induction cs arbitrary: s rs)
  case Nil
  then show ?case by simp
next
  case (Cons c cs)
  from Cons.prems obtain r s1 rs1 where c: "call s c = Some (r, s1)"
    and r: "run s1 cs = Some (rs1, s')" and rs: "rs = r # rs1"
    by (auto split: option.splits)
  note st = call_stored [OF c, of v t]
  note ih = Cons.IH [OF r]
  have a: "appended v rs = appended v [r] @ appended v rs1"
    unfolding rs by (rule appended_Cons)
  show ?case
    using st ih by (simp add: a)
qed

subsection \<open>Runs of reads\<close>

lemma run_total:
  assumes "activeLocks s = Map.empty"
  shows "\<exists>rs s'. run s cs = Some (rs, s') \<and> activeLocks s' = Map.empty"
  using assms
proof (induction cs arbitrary: s)
  case Nil
  then show ?case by simp
next
  case (Cons c cs)
  have "\<exists>r s1. call s c = Some (r, s1) \<and> activeLocks s1 = Map.empty"
  proof (cases c)
    case (Redeem uid pts rid now)
    have "activeLocks s uid = None" using Cons.prems by simp
    then have "redeemPoints s uid pts rid now = Some (executeRedemption s uid pts rid now)"
      by (rule redeemPoints_unlocked)
    then show ?thesis
      using Redeem Cons.prems activeLocks_executeRedemption [of s uid pts rid now]
      by (cases "executeRedemption s uid pts rid now") simp
  next
    case (GetBalance uid)
    then show ?thesis using Cons.prems by simp
  next
    case (GetRedemptionHistory uid)
    then show ?thesis
      using Cons.prems activeLocks_getRedemptionHistory [of s uid]
      by (cases "getRedemptionHistory s uid") simp
  qed
  then obtain r s1 where c: "call s c = Some (r, s1)" and l: "activeLocks s1 = Map.empty"
    by blast
  obtain rs s' where "run s1 cs = Some (rs, s')" and "activeLocks s' = Map.empty"
    using Cons.IH [OF l] by blast
  then show ?case using c by simp
qed

lemma run_append:
  "run s (xs @ ys) =
     (case run s xs of
        None \<Rightarrow> None
      | Some (rs, s1) \<Rightarrow>
          (case run s1 ys of None \<Rightarrow> None | Some (rs', s2) \<Rightarrow> Some (rs @ rs', s2)))"
  by (induction xs arbitrary: s) (auto split: option.splits)

lemma run_reads:
  assumes "\<forall>c\<in>set cs. isRead c"
  shows "\<exists>rs s'. run s cs = Some (rs, s') \<and> (\<forall>v. getBalance s' v = getBalance s v)"
  using assms
proof (induction cs arbitrary: s)
  case Nil
  then show ?case by simp
next
  case (Cons c cs)
  have "isRead c" using Cons.prems by simp
  then have "\<exists>r s1. call s c = Some (r, s1) \<and> (\<forall>v. getBalance s1 v = getBalance s v)"
  proof (cases c)
    case (GetRedemptionHistory uid)
    then show ?thesis
      using getBalance_getRedemptionHistory [of s uid]
      by (cases "getRedemptionHistory s uid") simp
  qed simp_all
  then obtain r s1 where c: "call s c = Some (r, s1)"
    and b: "\<forall>v. getBalance s1 v = getBalance s v"
    by blast
  have "\<forall>c\<in>set cs. isRead c" using Cons.prems by simp
  then obtain rs s' where "run s1 cs = Some (rs, s')" and "\<forall>v. getBalance s' v = getBalance s1 v"
    using Cons.IH by blast
  then show ?case using c b by simp
qed

subsection \<open>States holding the same ledger\<close>


lemma ordersByUser_save [simp]: "ordersByUser (save s r) = ordersByUser s"
  by (simp add: save_def Let_def)












subsection \<open>The seeded service\<close>

lemma seed_activeLocks: "activeLocks seedState = Map.empty"
  by (simp add: seedState_def)

lemma seed_redemptions:
  "redemption_findByUserId seedState uid =
     (if uid = ''eve'' then
        [\<lparr>redemptionId = ''red-e1'', Redemption.userId = ''eve'', Redemption.points = 25,
          timestamp = 1737201600000\<rparr>,
         \<lparr>redemptionId = ''red-e2'', Redemption.userId = ''eve'', Redemption.points = 75,
          timestamp = 1737305100000\<rparr>]
      else if uid = ''charlie'' then
        [\<lparr>redemptionId = ''red-c1'', Redemption.userId = ''charlie'', Redemption.points = 250,
          timestamp = 1737297000000\<rparr>,
         \<lparr>redemptionId = ''red-c2'', Redemption.userId = ''charlie'', Redemption.points = 250,
          timestamp = 1737364500000\<rparr>]
      else if uid = ''alice'' then
        [\<lparr>redemptionId = ''red-a1'', Redemption.userId = ''alice'', Redemption.points = 100,
          timestamp = 1737367200000\<rparr>]
      else [])"
  by (simp add: redemption_findByUserId_def seedState_def seedRedemptions_def)

lemma seed_earned:
  "spec_earnedPoints (order_findByUserId seedState uid) =
     (if uid = ''eve'' then 250 else if uid = ''dave'' then 200 else if uid = ''charlie'' then 500
      else if uid = ''bob'' then 0 else if uid = ''alice'' then 300 else 0)"
  by (simp add: spec_earnedPoints_def order_findByUserId_def seedState_def seedOrders_def)

lemma seed_balance:
  "balance (calculateBalance seedState uid) =
     (if uid = ''eve'' then 150 else if uid = ''dave'' then 200 else if uid = ''charlie'' then 0
      else if uid = ''bob'' then 0 else if uid = ''alice'' then 200 else 0)"
  by (simp add: balance_calculateBalance seed_redemptions seed_earned spec_redeemedPoints_def)


lemma seed_userExists:
  "userExists seedState uid = (uid \<in> {''alice'', ''bob'', ''charlie'', ''dave'', ''eve''})"
  by (auto simp: userExists_def seedState_def seedOrders_def)

lemma seed_orders_bob: "order_findByUserId seedState ''bob'' = []"
  by (simp add: order_findByUserId_def seedState_def seedOrders_def)




section \<open>The claims\<close>

subsection \<open>Balances never go negative\<close>



subsection \<open>The balance is the sum of active orders minus the sum of redemptions\<close>



subsection \<open>A successful redemption\<close>



subsection \<open>The outcomes of a redemption request\<close>

text \<open>
  Claim C4. A call of \<^verbatim>\<open>redeemPoints\<close> with no lock registered returns. It fails
  with the bad-request exception (the specification's InvalidAmount) exactly when the points are 0 or less; with the
  not-found exception (UserNotFound), for the user asked for, exactly when the points are
  positive and the user does not exist; with the conflict exception (InsufficientPoints),
  carrying the balance and the points asked for, exactly when the points are positive, the
  user exists and the points exceed the balance; and it succeeds exactly in the remaining
  case, which includes redeeming the whole balance. Every failure leaves the state as it
  was.
\<close>

theorem redeemPoints_outcomes:
  assumes "activeLocks s = Map.empty"
  shows "\<exists>r s'. redeemPoints s uid pts rid now = Some (r, s')
     \<and> ((r = Inl BadRequestException) = (pts \<le> 0))
     \<and> ((\<exists>u. r = Inl (NotFoundException u)) = (0 < pts \<and> \<not> userExists s uid))
     \<and> ((\<exists>a q. r = Inl (ConflictException a q))
          = (0 < pts \<and> userExists s uid \<and> balance (calculateBalance s uid) < pts))
     \<and> ((\<exists>dto. r = Inr dto)
          = (0 < pts \<and> userExists s uid \<and> pts \<le> balance (calculateBalance s uid)))
     \<and> (\<forall>u. r = Inl (NotFoundException u) \<longrightarrow> u = uid)
     \<and> (\<forall>a q. r = Inl (ConflictException a q) \<longrightarrow>
            a = balance (calculateBalance s uid) \<and> q = pts)
     \<and> (\<forall>e. r = Inl e \<longrightarrow> s' = s)"
proof -
  have "activeLocks s uid = None" using assms by simp
  then have "redeemPoints s uid pts rid now = Some (executeRedemption s uid pts rid now)"
    by (rule redeemPoints_unlocked)
  then show ?thesis
    by (auto simp: executeRedemption_def Let_def)
qed

text \<open>
  Claim C4 on the seeded service: the four outcomes, for a request of 0 points, for an
  unknown user, for bob who has no points, and for dave redeeming the whole balance.
\<close>

theorem redeemPoints_outcomes_witness:
  "activeLocks seedState = Map.empty
   \<and> redeemPoints seedState ''alice'' 0 ''r-1'' 1737400000000 =
       Some (Inl BadRequestException, seedState)
   \<and> redeemPoints seedState ''nonexistent'' 50 ''r-1'' 1737400000000 =
       Some (Inl (NotFoundException ''nonexistent''), seedState)
   \<and> redeemPoints seedState ''bob'' 100 ''r-1'' 1737400000000 =
       Some (Inl (ConflictException 0 100), seedState)
   \<and> (\<exists>dto s'. redeemPoints seedState ''dave'' 200 ''r-1'' 1737400000000 = Some (Inr dto, s'))"
proof -
  have 1: "redeemPoints seedState ''alice'' 0 ''r-1'' 1737400000000 =
       Some (Inl BadRequestException, seedState)"
    using redeemPoints_outcomes [OF seed_activeLocks, of "''alice''" 0 "''r-1''" 1737400000000]
    by auto
  have 2: "redeemPoints seedState ''nonexistent'' 50 ''r-1'' 1737400000000 =
       Some (Inl (NotFoundException ''nonexistent''), seedState)"
    using redeemPoints_outcomes [OF seed_activeLocks, of "''nonexistent''" 50 "''r-1''" 1737400000000]
    by (auto simp: seed_userExists)
  have 3: "redeemPoints seedState ''bob'' 100 ''r-1'' 1737400000000 =
       Some (Inl (ConflictException 0 100), seedState)"
    using redeemPoints_outcomes [OF seed_activeLocks, of "''bob''" 100 "''r-1''" 1737400000000]
    by (auto simp: seed_userExists seed_balance)
  have 4: "\<exists>dto s'. redeemPoints seedState ''dave'' 200 ''r-1'' 1737400000000 = Some (Inr dto, s')"
    using redeemPoints_outcomes [OF seed_activeLocks, of "''dave''" 200 "''r-1''" 1737400000000]
    by (auto simp: seed_userExists seed_balance)
  from 1 2 3 4 seed_activeLocks show ?thesis by blast
qed

subsection \<open>The order of the redemption history\<close>

text \<open>
  Claim C6, as amended. After every sequence of calls made one after the other on a
  service with no lock registered, the history of a user that exists
  lists all of that user's redemptions, those stored at the start and those recorded by
  the calls, newest timestamp first; redemptions with equal timestamps appear in the order
  in which they were stored and recorded, the earliest recorded first.
\<close>

theorem history_newest_first_stable:
  assumes "activeLocks s = Map.empty" and "userExists s uid"
  shows "\<exists>rs s' h s''. run s cs = Some (rs, s')
     \<and> getRedemptionHistory s' uid = (Inr h, s'')
     \<and> sorted_wrt (\<lambda>a b. timestamp b \<le> timestamp a) (redemptions h)
     \<and> mset (redemptions h) = mset (redemption_findByUserId s uid @ appended uid rs)
     \<and> (\<forall>t. filter (\<lambda>r. timestamp r = t) (redemptions h)
             = filter (\<lambda>r. timestamp r = t) (redemption_findByUserId s uid @ appended uid rs))"
proof -
  obtain rs s' where r: "run s cs = Some (rs, s')"
    using run_total [OF assms(1), of cs] by blast
  let ?h = "\<lparr>RedemptionHistory.userId = uid,
             redemptions = Array_sort newestFirst (redemption_findByUserId s' uid)\<rparr>"
  have "ordersByUser s' = ordersByUser s"
    using run_stored [OF r] by simp
  then have "userExists s' uid" using assms(2) by (simp add: userExists_def)
  then have "fst (getRedemptionHistory s' uid) = Inr ?h"
    by (simp add: fst_getRedemptionHistory)
  then have g: "getRedemptionHistory s' uid = (Inr ?h, snd (getRedemptionHistory s' uid))"
    by (cases "getRedemptionHistory s' uid") simp
  have 1: "sorted_wrt (\<lambda>a b. timestamp b \<le> timestamp a) (redemptions ?h)"
    by (simp add: sorted_Array_sort)
  have 2: "mset (redemptions ?h) = mset (redemption_findByUserId s uid @ appended uid rs)"
    using run_stored [OF r, of uid] by simp
  have 3: "\<forall>t. filter (\<lambda>r. timestamp r = t) (redemptions ?h)
             = filter (\<lambda>r. timestamp r = t) (redemption_findByUserId s uid @ appended uid rs)"
  proof
    fix t
    show "filter (\<lambda>r. timestamp r = t) (redemptions ?h)
             = filter (\<lambda>r. timestamp r = t) (redemption_findByUserId s uid @ appended uid rs)"
      using run_stored [OF r, of uid t] by (simp add: Array_sort_stable)
  qed
  from r g 1 2 3 show ?thesis by blast
qed

text \<open>
  Claim C6 as amended, on the seeded service and eve, with a history read between two
  redemptions of the same millisecond.
\<close>

theorem history_newest_first_stable_witness:
  "activeLocks seedState = Map.empty \<and> userExists seedState ''eve''
   \<and> (\<exists>rs s' h s''.
         run seedState
           [Redeem ''eve'' 10 ''r-1'' 1737400000000, GetRedemptionHistory ''eve'',
            Redeem ''eve'' 20 ''r-2'' 1737400000000] = Some (rs, s')
       \<and> getRedemptionHistory s' ''eve'' = (Inr h, s'')
       \<and> sorted_wrt (\<lambda>a b. timestamp b \<le> timestamp a) (redemptions h)
       \<and> mset (redemptions h) = mset (redemption_findByUserId seedState ''eve'' @ appended ''eve'' rs)
       \<and> (\<forall>t. filter (\<lambda>r. timestamp r = t) (redemptions h)
               = filter (\<lambda>r. timestamp r = t)
                   (redemption_findByUserId seedState ''eve'' @ appended ''eve'' rs)))"
proof -
  have e: "userExists seedState ''eve''" by (simp add: seed_userExists)
  show ?thesis
    using history_newest_first_stable [OF seed_activeLocks e] seed_activeLocks e by blast
qed

text \<open>
  Claim C6 as stated fails: dave redeems twice in the same millisecond, first
  \<^verbatim>\<open>r-1\<close> and then \<^verbatim>\<open>r-2\<close>, and the history that follows lists \<^verbatim>\<open>r-1\<close>, the one recorded
  first, before \<^verbatim>\<open>r-2\<close>, the one recorded last.
\<close>

theorem history_ties_counterexample:
  "map_option fst
     (run seedState
        [Redeem ''dave'' 10 ''r-1'' 1737400000000,
         Redeem ''dave'' 20 ''r-2'' 1737400000000,
         GetRedemptionHistory ''dave'']) =
   Some [RedeemReply (Inr \<lparr>redemptionId = ''r-1'', Redemption.userId = ''dave'',
                            Redemption.points = 10, timestamp = 1737400000000,
                            newBalance = 190\<rparr>),
         RedeemReply (Inr \<lparr>redemptionId = ''r-2'', Redemption.userId = ''dave'',
                            Redemption.points = 20, timestamp = 1737400000000,
                            newBalance = 170\<rparr>),
         HistoryReply (Inr \<lparr>RedemptionHistory.userId = ''dave'',
                             redemptions =
                               [\<lparr>redemptionId = ''r-1'', Redemption.userId = ''dave'',
                                 Redemption.points = 10, timestamp = 1737400000000\<rparr>,
                                \<lparr>redemptionId = ''r-2'', Redemption.userId = ''dave'',
                                 Redemption.points = 20, timestamp = 1737400000000\<rparr>]\<rparr>)]"
  by code_simp

subsection \<open>The history is not paginated\<close>

text \<open>
  Claim C7, as amended. The history handler reads the user id only: whatever the query
  parameters of the request, a user that exists gets the user id and the whole sorted
  sequence of the user's redemptions, and a user that does not exist gets the not-found
  exception; there is no other failure.
\<close>

theorem history_whole_sequence:
  "fst (controller_getRedemptionHistory s uid query) =
     (if userExists s uid
      then Inr \<lparr>RedemptionHistory.userId = uid,
                redemptions = Array_sort newestFirst (redemption_findByUserId s uid)\<rparr>
      else Inl (NotFoundException uid))
   \<and> (userExists s uid \<longrightarrow>
        (\<exists>h. fst (controller_getRedemptionHistory s uid query) = Inr h
           \<and> mset (redemptions h) = mset (redemption_findByUserId s uid)))"
  by (simp add: controller_getRedemptionHistory_def fst_getRedemptionHistory)

text \<open>
  Claim C7 as amended, on seeded eve and a request with \<^verbatim>\<open>limit=1\<close>.
\<close>

theorem history_whole_sequence_witness:
  "userExists seedState ''eve''
   \<and> (\<exists>h. fst (controller_getRedemptionHistory seedState ''eve'' [(''limit'', ''1'')]) = Inr h
        \<and> mset (redemptions h) = mset (redemption_findByUserId seedState ''eve''))"
proof -
  have e: "userExists seedState ''eve''" by (simp add: seed_userExists)
  show ?thesis
    using history_whole_sequence [of seedState "''eve''" "[(''limit'', ''1'')]"] e by blast
qed

text \<open>
  Claim C7 as stated fails: for eve, who has two redemptions, a request with
  \<^verbatim>\<open>limit=0\<close> and \<^verbatim>\<open>offset=-1\<close> is answered with both redemptions instead of a
  pagination failure, and a request with \<^verbatim>\<open>limit=1\<close> is answered with both redemptions
  too.
\<close>

theorem history_pagination_counterexample:
  "fst (controller_getRedemptionHistory seedState ''eve'' [(''limit'', ''0''), (''offset'', ''-1'')]) =
     Inr \<lparr>RedemptionHistory.userId = ''eve'',
          redemptions =
            [\<lparr>redemptionId = ''red-e2'', Redemption.userId = ''eve'', Redemption.points = 75,
              timestamp = 1737305100000\<rparr>,
             \<lparr>redemptionId = ''red-e1'', Redemption.userId = ''eve'', Redemption.points = 25,
              timestamp = 1737201600000\<rparr>]\<rparr>
   \<and> fst (controller_getRedemptionHistory seedState ''eve'' [(''limit'', ''1'')]) =
     Inr \<lparr>RedemptionHistory.userId = ''eve'',
          redemptions =
            [\<lparr>redemptionId = ''red-e2'', Redemption.userId = ''eve'', Redemption.points = 75,
              timestamp = 1737305100000\<rparr>,
             \<lparr>redemptionId = ''red-e1'', Redemption.userId = ''eve'', Redemption.points = 25,
              timestamp = 1737201600000\<rparr>]\<rparr>"
  by code_simp

subsection \<open>Which users exist\<close>

text \<open>
  Claim C8, as amended. \<^verbatim>\<open>userExists\<close> is true exactly for the user ids that have an
  entry in the order index, whether or not the entry holds an order; a user with at least
  one order has an entry. \<^verbatim>\<open>getBalance\<close> and \<^verbatim>\<open>getRedemptionHistory\<close> fail with the
  not-found exception exactly for the users without an entry and succeed for the others,
  and so does \<^verbatim>\<open>redeemPoints\<close> fail with it when asked for a positive number of points.
\<close>

theorem userExists_iff_indexed:
  "(userExists s uid \<longleftrightarrow> uid \<in> dom (ordersByUser s))
   \<and> (order_findByUserId s uid \<noteq> [] \<longrightarrow> userExists s uid)
   \<and> (getBalance s uid = Inl (NotFoundException uid) \<longleftrightarrow> uid \<notin> dom (ordersByUser s))
   \<and> (uid \<in> dom (ordersByUser s) \<longrightarrow> (\<exists>dto. getBalance s uid = Inr dto))
   \<and> (fst (getRedemptionHistory s uid) = Inl (NotFoundException uid)
        \<longleftrightarrow> uid \<notin> dom (ordersByUser s))
   \<and> (uid \<in> dom (ordersByUser s) \<longrightarrow> (\<exists>h. fst (getRedemptionHistory s uid) = Inr h))
   \<and> (activeLocks s = Map.empty \<and> 0 < pts \<longrightarrow>
        (redeemPoints s uid pts rid now = Some (Inl (NotFoundException uid), s)
           \<longleftrightarrow> uid \<notin> dom (ordersByUser s)))"
proof -
  have d: "userExists s uid \<longleftrightarrow> uid \<in> dom (ordersByUser s)"
    by (auto simp: userExists_def)
  have o: "order_findByUserId s uid \<noteq> [] \<longrightarrow> userExists s uid"
    by (auto simp: userExists_def order_findByUserId_def split: option.splits)
  have b: "getBalance s uid = Inl (NotFoundException uid) \<longleftrightarrow> \<not> userExists s uid"
    "userExists s uid \<longrightarrow> (\<exists>dto. getBalance s uid = Inr dto)"
    by (simp_all add: getBalance_def Let_def)
  have h: "fst (getRedemptionHistory s uid) = Inl (NotFoundException uid) \<longleftrightarrow> \<not> userExists s uid"
    "userExists s uid \<longrightarrow> (\<exists>h. fst (getRedemptionHistory s uid) = Inr h)"
    by (simp_all add: fst_getRedemptionHistory)
  have r: "activeLocks s = Map.empty \<and> 0 < pts \<longrightarrow>
        (redeemPoints s uid pts rid now = Some (Inl (NotFoundException uid), s)
           \<longleftrightarrow> \<not> userExists s uid)"
  proof
    assume a: "activeLocks s = Map.empty \<and> 0 < pts"
    then have "activeLocks s uid = None" by simp
    then have "redeemPoints s uid pts rid now = Some (executeRedemption s uid pts rid now)"
      by (rule redeemPoints_unlocked)
    then show "redeemPoints s uid pts rid now = Some (Inl (NotFoundException uid), s)
           \<longleftrightarrow> \<not> userExists s uid"
      using a by (auto simp: executeRedemption_def Let_def)
  qed
  from o b h r show ?thesis unfolding d by blast
qed

text \<open>
  Claim C8 as amended, on the seeded service: bob has an entry, dave has orders, and
  \<^verbatim>\<open>nonexistent\<close> has no entry.
\<close>

theorem userExists_iff_indexed_witness:
  "''bob'' \<in> dom (ordersByUser seedState) \<and> userExists seedState ''bob''
   \<and> ''nonexistent'' \<notin> dom (ordersByUser seedState)
   \<and> getBalance seedState ''nonexistent'' = Inl (NotFoundException ''nonexistent'')
   \<and> order_findByUserId seedState ''dave'' \<noteq> [] \<and> userExists seedState ''dave''
   \<and> activeLocks seedState = Map.empty \<and> (0::int) < 50
   \<and> redeemPoints seedState ''nonexistent'' 50 ''r-1'' 1737400000000 =
       Some (Inl (NotFoundException ''nonexistent''), seedState)"
proof -
  have 1: "''bob'' \<in> dom (ordersByUser seedState)"
    by (simp add: seedState_def seedOrders_def)
  have 2: "''nonexistent'' \<notin> dom (ordersByUser seedState)"
    by (simp add: seedState_def seedOrders_def)
  have 3: "order_findByUserId seedState ''dave'' \<noteq> []"
    by (simp add: order_findByUserId_def seedState_def seedOrders_def)
  have 4: "(0::int) < 50" by simp
  show ?thesis
    using userExists_iff_indexed [of seedState "''bob''" 50 "''r-1''" 1737400000000]
      userExists_iff_indexed [of seedState "''nonexistent''" 50 "''r-1''" 1737400000000]
      userExists_iff_indexed [of seedState "''dave''" 50 "''r-1''" 1737400000000]
      1 2 3 4 seed_activeLocks
    by blast
qed

text \<open>
  Claim C8 as stated fails: seeded bob exists and gets a balance, and no order is
  recorded for bob.
\<close>

theorem userExists_counterexample:
  "userExists seedState ''bob'' \<and> order_findByUserId seedState ''bob'' = []
   \<and> getBalance seedState ''bob'' =
       Inr \<lparr>earnedPoints = 0, redeemedPoints = 0, balance = 0, BalanceResponseDto.userId = ''bob''\<rparr>"
  by code_simp

subsection \<open>Reading the balance twice\<close>

text \<open>
  Claim C9. Two calls of \<^verbatim>\<open>getBalance\<close> for the same user, one right after the other,
  give the same reply, a failure or the same four values, and leave the state as it was;
  the two replies are also the same when reads of balances and histories, of any users,
  come between the two calls.
\<close>

theorem getBalance_twice:
  "run s [GetBalance uid, GetBalance uid] =
     Some ([BalanceReply (getBalance s uid), BalanceReply (getBalance s uid)], s)
   \<and> ((\<forall>c\<in>set cs. isRead c) \<longrightarrow>
        (\<exists>rs s'. run s (GetBalance uid # cs @ [GetBalance uid]) =
           Some (BalanceReply (getBalance s uid) # rs @ [BalanceReply (getBalance s uid)], s')))"
proof (intro conjI impI)
  show "run s [GetBalance uid, GetBalance uid] =
     Some ([BalanceReply (getBalance s uid), BalanceReply (getBalance s uid)], s)"
    by simp
next
  assume "\<forall>c\<in>set cs. isRead c"
  then obtain rs s' where r: "run s cs = Some (rs, s')"
    and b: "\<forall>v. getBalance s' v = getBalance s v"
    using run_reads by blast
  have "run s (GetBalance uid # cs @ [GetBalance uid]) =
           Some (BalanceReply (getBalance s uid) # rs @ [BalanceReply (getBalance s uid)], s')"
    using r b by (simp add: run_append)
  then show "\<exists>rs s'. run s (GetBalance uid # cs @ [GetBalance uid]) =
           Some (BalanceReply (getBalance s uid) # rs @ [BalanceReply (getBalance s uid)], s')"
    by blast
qed

text \<open>
  Claim C9 on the seeded service, with a history read and a balance read between the two
  calls.
\<close>

theorem getBalance_twice_witness:
  "isRead (GetRedemptionHistory ''eve'') \<and> isRead (GetBalance ''alice'')
   \<and> (\<exists>rs s'. run seedState
                 (GetBalance ''eve'' # [GetRedemptionHistory ''eve'', GetBalance ''alice'']
                    @ [GetBalance ''eve'']) =
               Some (BalanceReply (getBalance seedState ''eve'') # rs
                       @ [BalanceReply (getBalance seedState ''eve'')], s'))"
proof -
  have r: "\<forall>c\<in>set [GetRedemptionHistory ''eve'', GetBalance ''alice'']. isRead c"
    by simp
  have "\<exists>rs s'. run seedState
                 (GetBalance ''eve'' # [GetRedemptionHistory ''eve'', GetBalance ''alice'']
                    @ [GetBalance ''eve'']) =
               Some (BalanceReply (getBalance seedState ''eve'') # rs
                       @ [BalanceReply (getBalance seedState ''eve'')], s')"
    using getBalance_twice [of seedState "''eve''"
        "[GetRedemptionHistory ''eve'', GetBalance ''alice'']"] r
    by blast
  then show ?thesis by simp
qed

subsection \<open>The history read sorts the stored array\<close>



end
